theory Spec2Isabelle
  imports Main
begin

section \<open>The script \<open>sample.py\<close> as a state transformer\<close>

text \<open>
  The whole program:
  \<^verbatim>\<open>
  import sys

  def print_words():
      if len(sys.argv) == 4:
          print("Your words:", sys.argv[1], sys.argv[2], sys.argv[3])
      else:
          print("Give 3 words!")

  if __name__ == "__main__":
      # sys.argv = ["sample.py", "apple", "banana", "cherry"]
      print_words()
  \<close>
  It reads the list \<open>sys.argv\<close> and writes to \<open>sys.stdout\<close>. A Python \<open>str\<close> is
  a \<open>string\<close> here, \<open>sys.argv\<close> a \<open>string list\<close>, and a stream the text written to it
  so far.
\<close>

subsection \<open>The state of the process\<close>

text \<open>
  The fields are what the script touches: the argument list and the two output streams.
  A function on \<open>'a process_scheme\<close> applies to every record that extends this one; the
  second section extends it with the state of the output stream.
\<close>

record process =
  argv :: "string list"
  stdout :: string
  stderr :: string

text \<open>
  The only exception the script's own operations can raise is that of list indexing
  (those of the output stream come with the stream, in the second section).
\<close>

datatype py_error = IndexError

subsection \<open>The built-in operations the script calls\<close>

text \<open>
  \<open>xs[i]\<close> on a list: a negative index counts from the end, and an index outside the list
  raises \<open>IndexError\<close>.
\<close>

definition getitem :: "'a list \<Rightarrow> int \<Rightarrow> py_error + 'a" where
  "getitem xs i =
     (let k = (if i < 0 then i + int (length xs) else i)
      in if k < 0 \<or> int (length xs) \<le> k then Inl IndexError else Inr (xs ! nat k))"

text \<open>\<open>sep.join(objects)\<close>: the separator stands between neighbours only.\<close>

fun str_join :: "string \<Rightarrow> string list \<Rightarrow> string" where
  "str_join sep [] = []"
| "str_join sep [x] = x"
| "str_join sep (x # y # ys) = x @ sep @ str_join sep (y # ys)"

text \<open>
  \<open>print(*objects)\<close> with its defaults \<open>sep=' '\<close>, \<open>end='\n'\<close>, \<open>file=sys.stdout\<close>:
  the objects joined by single spaces, then a newline, appended to standard output. This
  is \<open>print\<close> on a stream that writes every text unchanged and at once; the stream as the
  interpreter has it, with an encoder that can reject a text and a device that can refuse
  the bytes, is the subject of the second section, and \<open>main_io_ideal\<close> relates the two.
\<close>

definition print :: "string list \<Rightarrow> 'a process_scheme \<Rightarrow> 'a process_scheme" where
  "print objects p = p\<lparr>stdout := stdout p @ str_join '' '' objects @ ''\<newline>''\<rparr>"

subsection \<open>The script\<close>

text \<open>
  \<open>print_words\<close>, branch by branch. The arguments of the first \<open>print\<close> are evaluated from
  left to right before the call, so an \<open>IndexError\<close> would leave the function before
  anything is written.
\<close>

definition print_words :: "'a process_scheme \<Rightarrow> py_error + 'a process_scheme" where
  "print_words p =
     (if int (length (argv p)) = 4 then
        (case getitem (argv p) 1 of
           Inl e \<Rightarrow> Inl e
         | Inr w1 \<Rightarrow>
            (case getitem (argv p) 2 of
               Inl e \<Rightarrow> Inl e
             | Inr w2 \<Rightarrow>
                (case getitem (argv p) 3 of
                   Inl e \<Rightarrow> Inl e
                 | Inr w3 \<Rightarrow> Inr (print [''Your words:'', w1, w2, w3] p))))
      else Inr (print [''Give 3 words!''] p))"

text \<open>
  What the interpreter prints for an exception nobody caught: its last line (the lines
  naming the stack frames come before it and are left out).
\<close>

fun format_exception :: "py_error \<Rightarrow> string" where
  "format_exception IndexError = ''IndexError: list index out of range\<newline>''"

text \<open>
  The module run as a script (\<open>__name__ == "__main__"\<close>): it calls \<open>print_words()\<close> and
  falls off the end, which is exit status 0. An uncaught exception would instead be
  reported on standard error with exit status 1; \<open>print_words\<close> can only raise before it
  has written, so the state at that point is the initial one. The run on the
  interpreter's stream, with the flush at exit, is \<open>main_io\<close> in the second section.
\<close>

definition main :: "'a process_scheme \<Rightarrow> nat \<times> 'a process_scheme" where
  "main p =
     (case print_words p of
        Inr p' \<Rightarrow> (0, p')
      | Inl e \<Rightarrow> (1, p\<lparr>stderr := stderr p @ format_exception e\<rparr>))"

text \<open>
  The process at its start, for the command line \<open>python prog args\<close>: the interpreter
  puts the script's name at index 0 of \<open>sys.argv\<close> and the user's arguments after it (the
  source's comment shows the layout), and nothing has been written yet.
\<close>

definition invoke :: "string \<Rightarrow> string list \<Rightarrow> process" where
  "invoke prog args = \<lparr>argv = prog # args, stdout = [], stderr = []\<rparr>"

text \<open>The text a run wrote to standard output, between its first and its last state.\<close>

definition written :: "'a process_scheme \<Rightarrow> 'b process_scheme \<Rightarrow> string" where
  "written p p' = drop (length (stdout p)) (stdout p')"

text \<open>
  A text is exactly one line when it ends with a newline and has no other newline.
\<close>

definition single_line :: "string \<Rightarrow> bool" where
  "single_line s = (s \<noteq> [] \<and> last s = CHR 0x0A \<and> CHR 0x0A \<notin> set (butlast s))"

section \<open>The script on the output stream of the interpreter\<close>

text \<open>
  \<open>sys.stdout\<close> is a text layer over a buffer over a device. The text layer encodes each
  text it is given with the stream's codec and error handler, which the interpreter fixes
  at start from the locale and from the environment variable \<open>PYTHONIOENCODING\<close>; a
  strict handler raises \<open>UnicodeEncodeError\<close> on a character the codec cannot encode. The
  bytes wait in the buffer and reach the device when the buffer is flushed, at the latest
  when the interpreter exits; a device that is full or a pipe whose reader is gone refuses
  them.

  The strings of the model are the bytes of the command line. Python decodes each
  argument to a \<open>str\<close>, with byte values that are not valid text escaped as lone
  surrogates, so a codec sees exactly what the bytes say: the encoder of a stream is a
  function from the bytes of a text to the bytes written, or to \<open>None\<close> where the
  handler raises. The function is applied to each text on its own (codecs that keep state
  between writes, such as one that starts with a byte order mark, are not covered).

  The device is asked when the buffer is flushed at exit, as for a file or a pipe and an
  output that fits the buffer. A longer output is flushed inside \<open>print\<close>; on a device
  that accepts it this gives the same bytes, and on one that refuses it the refusal then
  surfaces inside \<open>print\<close> as well, which the model does not follow. \<open>sys.stdout\<close> is
  taken to be open (with file descriptor 1 closed it is \<open>None\<close> and \<open>print\<close> does
  nothing).
\<close>

text \<open>
  Operations on files and on the network, should a run perform any, are kept in a log.
\<close>

datatype io_op = File_op string | Network_op string













subsection \<open>Notions for the statements\<close>






section \<open>Properties\<close>

subsection \<open>Helper facts\<close>

lemma getitem_in_range:
  "0 \<le> i \<Longrightarrow> i < int (length xs) \<Longrightarrow> getitem xs i = Inr (xs ! nat i)"
  by (simp add: getitem_def)

lemma length_four: "length xs = 4 \<Longrightarrow> \<exists>x a b c. xs = [x, a, b, c]"
  by (auto simp: length_Suc_conv eval_nat_numeral)

lemma print_words_words:
  "argv p = [x, a, b, c] \<Longrightarrow>
   print_words p =
     Inr (p\<lparr>stdout := stdout p @ ''Your words: '' @ a @ '' '' @ b @ '' '' @ c @ ''\<newline>''\<rparr>)"
  by (simp add: print_words_def getitem_def print_def)

lemma print_words_usage:
  "length (argv p) \<noteq> 4 \<Longrightarrow>
   print_words p = Inr (p\<lparr>stdout := stdout p @ ''Give 3 words!\<newline>''\<rparr>)"
  by (simp add: print_words_def print_def)

lemma main_words:
  "argv p = [x, a, b, c] \<Longrightarrow>
   main p = (0, p\<lparr>stdout := stdout p @ ''Your words: '' @ a @ '' '' @ b @ '' '' @ c @ ''\<newline>''\<rparr>)"
  by (simp add: main_def print_words_words)

lemma main_usage:
  "length (argv p) \<noteq> 4 \<Longrightarrow>
   main p = (0, p\<lparr>stdout := stdout p @ ''Give 3 words!\<newline>''\<rparr>)"
  by (simp add: main_def print_words_usage)

lemma written_append: "written p (p\<lparr>stdout := stdout p @ out\<rparr>) = out"
  by (simp add: written_def)

lemma main_cases:
  "(\<exists>x a b c. argv p = [x, a, b, c] \<and>
      main p = (0, p\<lparr>stdout := stdout p @ ''Your words: '' @ a @ '' '' @ b @ '' '' @ c @ ''\<newline>''\<rparr>))
   \<or> (length (argv p) \<noteq> 4 \<and> main p = (0, p\<lparr>stdout := stdout p @ ''Give 3 words!\<newline>''\<rparr>))"
proof (cases "length (argv p) = 4")
  case True
  then obtain x a b c where "argv p = [x, a, b, c]" using length_four by blast
  then show ?thesis using main_words by blast
next
  case False
  then show ?thesis using main_usage by blast
qed




lemma single_line_usage: "single_line ''Give 3 words!\<newline>''"
  by (simp add: single_line_def)


subsection \<open>Helper facts about the stream\<close>























subsection \<open>The two outputs\<close>





subsection \<open>Which branch runs\<close>

text \<open>
  Claim C3. The test counts the whole of \<open>sys.argv\<close>, element 0 included. The run writes
  the \<open>Your words:\<close> line exactly when the whole list has length 4, and the
  \<open>Give 3 words!\<close> line exactly when it has any other length. With four elements the
  printed words are the elements 1 to 3, whatever element 0 is; a list of exactly three
  elements, with no program name in front, gets \<open>Give 3 words!\<close>.
\<close>

theorem branch_counts_whole_argv:
  "(take 12 (written p (snd (main p))) = ''Your words: '') = (length (argv p) = 4) \<and>
   (written p (snd (main p)) = ''Give 3 words!\<newline>'') = (length (argv p) \<noteq> 4) \<and>
   (argv p = [x, a, b, c] \<longrightarrow>
      print_words p =
        Inr (p\<lparr>stdout := stdout p @ ''Your words: '' @ a @ '' '' @ b @ '' '' @ c @ ''\<newline>''\<rparr>)) \<and>
   (argv p = [a, b, c] \<longrightarrow>
      print_words p = Inr (p\<lparr>stdout := stdout p @ ''Give 3 words!\<newline>''\<rparr>))"
proof (intro conjI impI)
  show "(take 12 (written p (snd (main p))) = ''Your words: '') = (length (argv p) = 4)"
    using main_cases [of p] by (auto simp: written_append)
  show "(written p (snd (main p)) = ''Give 3 words!\<newline>'') = (length (argv p) \<noteq> 4)"
    using main_cases [of p] by (auto simp: written_append)
  show "print_words p =
      Inr (p\<lparr>stdout := stdout p @ ''Your words: '' @ a @ '' '' @ b @ '' '' @ c @ ''\<newline>''\<rparr>)"
    if "argv p = [x, a, b, c]" using that by (rule print_words_words)
  show "print_words p = Inr (p\<lparr>stdout := stdout p @ ''Give 3 words!\<newline>''\<rparr>)"
    if "argv p = [a, b, c]" using that by (simp add: print_words_usage)
qed

text \<open>
  Four elements with an arbitrary element 0 print the words; the three words alone, with
  nothing in front of them, do not.
\<close>

theorem branch_counts_whole_argv_witness:
  "print_words \<lparr>argv = [''-c'', ''x'', ''y'', ''z''], stdout = [], stderr = []\<rparr> =
     Inr \<lparr>argv = [''-c'', ''x'', ''y'', ''z''], stdout = ''Your words: x y z\<newline>'',
          stderr = []\<rparr> \<and>
   print_words \<lparr>argv = [''x'', ''y'', ''z''], stdout = [], stderr = []\<rparr> =
     Inr \<lparr>argv = [''x'', ''y'', ''z''], stdout = ''Give 3 words!\<newline>'', stderr = []\<rparr>"
  using
    branch_counts_whole_argv [where p = "\<lparr>argv = [''-c'', ''x'', ''y'', ''z''], stdout = [], stderr = []\<rparr>"
      and x = "''-c''" and a = "''x''" and b = "''y''" and c = "''z''"]
    branch_counts_whole_argv [where p = "\<lparr>argv = [''x'', ''y'', ''z''], stdout = [], stderr = []\<rparr>"
      and a = "''x''" and b = "''y''" and c = "''z''"]
  by simp

subsection \<open>Where a run can fail\<close>




subsection \<open>The exit status\<close>




subsection \<open>How many lines\<close>




subsection \<open>Determinism and frame\<close>







subsection \<open>Indexing\<close>

text \<open>
  Claim C9. The accesses \<open>sys.argv[1]\<close>, \<open>sys.argv[2]\<close>, \<open>sys.argv[3]\<close> stand under the
  test that the list has length 4, where each of them is in range and returns the
  element. On a shorter list \<open>sys.argv[3]\<close> would raise \<open>IndexError\<close>, yet \<open>print_words\<close>
  raises on no list at all: the failing branch of the indexing is never reached.
\<close>

theorem indexing_in_bounds:
  "(length (argv p) = 4 \<longrightarrow>
      getitem (argv p) 1 = Inr (argv p ! 1) \<and>
      getitem (argv p) 2 = Inr (argv p ! 2) \<and>
      getitem (argv p) 3 = Inr (argv p ! 3)) \<and>
   (length (argv p) < 4 \<longrightarrow> getitem (argv p) 3 = Inl IndexError) \<and>
   (\<forall>e. print_words p \<noteq> Inl e)"
proof (intro conjI impI allI)
  show "print_words p \<noteq> Inl e" for e
    using main_cases [of p] by (auto simp: main_def split: sum.splits)
qed (simp_all add: getitem_def)

text \<open>Both sides of the test: four elements, and three.\<close>

theorem indexing_in_bounds_witness:
  "length (argv (invoke ''sample.py'' [''apple'', ''banana'', ''cherry''])) = 4 \<and>
   getitem (argv (invoke ''sample.py'' [''apple'', ''banana'', ''cherry''])) 1 = Inr ''apple'' \<and>
   getitem (argv (invoke ''sample.py'' [''apple'', ''banana'', ''cherry''])) 2 = Inr ''banana'' \<and>
   getitem (argv (invoke ''sample.py'' [''apple'', ''banana'', ''cherry''])) 3 = Inr ''cherry'' \<and>
   length (argv (invoke ''sample.py'' [''one'', ''two''])) < 4 \<and>
   getitem (argv (invoke ''sample.py'' [''one'', ''two''])) 3 = Inl IndexError \<and>
   print_words (invoke ''sample.py'' [''one'', ''two'']) \<noteq> Inl IndexError"
  using indexing_in_bounds [of "invoke ''sample.py'' [''apple'', ''banana'', ''cherry'']"]
    indexing_in_bounds [of "invoke ''sample.py'' [''one'', ''two'']"]
  by (simp add: invoke_def)

subsection \<open>Words with spaces\<close>

text \<open>
  Claim C10. The words line does not determine the three words. The triples
  \<open>("a b", "c", "d")\<close> and \<open>("a", "b c", "d")\<close> differ and both print
  \<open>Your words: a b c d\<close>, so the map from the three arguments to the output is not
  injective.
\<close>

theorem words_line_not_injective:
  "(''a b'', ''c'', ''d'') \<noteq> (''a'', ''b c'', ''d'') \<and>
   stdout (snd (main (invoke prog [''a b'', ''c'', ''d'']))) = ''Your words: a b c d\<newline>'' \<and>
   stdout (snd (main (invoke prog [''a'', ''b c'', ''d'']))) = ''Your words: a b c d\<newline>'' \<and>
   \<not> inj (\<lambda>(a, b, c). stdout (snd (main (invoke prog [a, b, c]))))"
proof -
  have 1: "stdout (snd (main (invoke prog [''a b'', ''c'', ''d'']))) = ''Your words: a b c d\<newline>''"
    by (simp add: main_words [of _ prog "''a b''" "''c''" "''d''"] invoke_def)
  have 2: "stdout (snd (main (invoke prog [''a'', ''b c'', ''d'']))) = ''Your words: a b c d\<newline>''"
    by (simp add: main_words [of _ prog "''a''" "''b c''" "''d''"] invoke_def)
  have "\<not> inj (\<lambda>(a, b, c). stdout (snd (main (invoke prog [a, b, c]))))"
  proof
    assume "inj (\<lambda>(a, b, c). stdout (snd (main (invoke prog [a, b, c]))))"
    from injD [OF this, of "(''a b'', ''c'', ''d'')" "(''a'', ''b c'', ''d'')"] 1 2
    show False by simp
  qed
  with 1 2 show ?thesis by simp
qed

end

